theory Spec2Isabelle
  imports Complex_Main
begin

section \<open>Feature ablation for brain-age regression\<close>

text \<open>
  A shallow embedding of the helper functions of the notebook
  \<^verbatim>\<open>multimodal_ML_brain_age_ridge_feat_selection_cleaned.ipynb\<close>:
  \<^verbatim>\<open>train_model\<close>, \<^verbatim>\<open>predict_ages\<close>, \<^verbatim>\<open>evaluate_feature_ablation\<close> and
  \<^verbatim>\<open>calculate_mae\<close>.

  Conventions of the model.
  \<^item> A Python exception is a value of type \<open>error\<close>; a function that may raise returns
    \<open>error + 'a\<close>, with \<open>Inl\<close> for the exception.
  \<^item> The numbers of a table and the raw outputs of a regression model are finite and are
    reals. A number computed by NumPy is a \<open>float64\<close>: finite, infinite or NaN.
  \<^item> NumPy and scikit-learn are not part of the notebook. Their operations are the fields
    of a record \<open>sklearn\<close> over which every theorem is quantified; in particular the
    floating-point rounding, subtraction and mean are NumPy's, whatever they compute.
    The fitted model and the fitted scaler are values of two type parameters.
  \<^item> The seven column lists of the module \<^verbatim>\<open>imaging_features\<close> are not part of the
    notebook either; they are the fields of a record \<open>imaging_features\<close>.
\<close>

subsection \<open>Exceptions\<close>

datatype error =
    KeyError "string list"
  | ValueError string

subsection \<open>Floating-point values\<close>

datatype float64 = NaN | Finite real | PosInf | NegInf

text \<open>Python's \<^verbatim>\<open>x >= 0\<close> and \<^verbatim>\<open>x == 0\<close> on a float: both are false for NaN.\<close>

fun non_negative :: "float64 \<Rightarrow> bool" where
  "non_negative NaN = False"
| "non_negative (Finite x) = (0 \<le> x)"
| "non_negative PosInf = True"
| "non_negative NegInf = False"

fun is_zero :: "float64 \<Rightarrow> bool" where
  "is_zero (Finite x) = (x = 0)"
| "is_zero v = False"

fun is_finite :: "float64 \<Rightarrow> bool" where
  "is_finite (Finite x) = True"
| "is_finite v = False"

text \<open>The absolute value of one float (\<^verbatim>\<open>np.abs\<close>); it clears the sign and is exact.\<close>

fun fabs :: "float64 \<Rightarrow> float64" where
  "fabs NaN = NaN"
| "fabs (Finite x) = Finite \<bar>x\<bar>"
| "fabs PosInf = PosInf"
| "fabs NegInf = PosInf"

subsection \<open>Tables\<close>

text \<open>
  A pandas DataFrame is the list of its columns, in order, each a label and the cells of
  that column. A cell is a number or a string (subject identifiers and diagnosis labels
  are strings). A DataFrame of dtype float64 is a \<open>matrix\<close>.
\<close>

datatype cell = Num real | Str string

type_synonym dataframe = "(string \<times> cell list) list"

type_synonym matrix = "(string \<times> real list) list"

text \<open>
  \<^verbatim>\<open>df.drop(labels, axis=1)\<close>: raises KeyError when a label is not a column; otherwise
  every column whose label is listed is removed. With unique column labels the exception
  names the missing labels, with repeated column labels it names all of \<^verbatim>\<open>labels\<close>.
\<close>

definition drop_columns :: "string list \<Rightarrow> dataframe \<Rightarrow> error + dataframe" where
  "drop_columns labels df =
     (let missing = filter (\<lambda>l. l \<notin> set (map fst df)) labels in
      if missing \<noteq> [] then
        Inl (KeyError (if distinct (map fst df) then missing else labels))
      else Inr (filter (\<lambda>(name, cells). name \<notin> set labels) df))"

text \<open>
  \<^verbatim>\<open>df[key]\<close>: KeyError when no column has the label, the column (a Series) when one
  has, a DataFrame of the matching columns when several have.
\<close>

datatype selection = Column "cell list" | Columns dataframe

definition getitem :: "dataframe \<Rightarrow> string \<Rightarrow> error + selection" where
  "getitem df key =
     (case filter (\<lambda>(name, cells). name = key) df of
        [] \<Rightarrow> Inl (KeyError [key])
      | [(name, cells)] \<Rightarrow> Inr (Column cells)
      | cols \<Rightarrow> Inr (Columns cols))"

subsection \<open>The library interface\<close>

datatype scaler_class = MinMaxScaler | StandardScaler

text \<open>\<^verbatim>\<open>RepeatedKFold(n_splits=..., n_repeats=..., random_state=...)\<close>\<close>

record cross_validator =
  n_splits :: nat
  n_repeats :: nat
  random_state :: nat

text \<open>The parameter grid of the support-vector search and one combination of it.\<close>

record svr_param_grid =
  grid_C :: "real list"
  grid_epsilon :: "real list"
  grid_kernel :: "string list"

record svr_params =
  svr_C :: real
  svr_epsilon :: real
  svr_kernel :: string

text \<open>
  The calls the notebook makes into Python, scikit-learn and NumPy, each with the
  arguments the notebook passes:
  \<^item> \<open>py_float\<close>: the conversion of a string cell to a float (\<^verbatim>\<open>astype('float64')\<close>);
  \<^item> \<open>scaler_fit_transform\<close>: \<^verbatim>\<open>scaler.fit_transform(X)\<close> on a fresh scaler of the given
    class, giving the fitted scaler and the transformed features;
  \<^item> \<open>scaler_transform\<close>: \<^verbatim>\<open>scaler.transform(X)\<close> on a fitted scaler;
  \<^item> \<open>ridgecv_fit\<close>: \<^verbatim>\<open>RidgeCV(alphas=, scoring=, cv=).fit(X, y).alpha_\<close>;
  \<^item> \<open>ridge_fit\<close>: \<^verbatim>\<open>Ridge(alpha=).fit(X, y)\<close>;
  \<^item> \<open>gridsearchcv_fit\<close>:
    \<^verbatim>\<open>GridSearchCV(SVR(), param_grid, scoring=, cv=, n_jobs=).fit(X, y).best_params_\<close>;
  \<^item> \<open>svr_fit\<close>: \<^verbatim>\<open>SVR(**params).fit(X, y)\<close>;
  \<^item> \<open>model_predict\<close>: \<^verbatim>\<open>model.predict(X)\<close>;
  \<^item> \<open>np_round\<close>: \<^verbatim>\<open>np.round(x, decimals)\<close>, on one element of the array;
  \<^item> \<open>float_subtract\<close>: \<^verbatim>\<open>a - b\<close>, on one element of each array;
  \<^item> \<open>ndarray_mean\<close>: \<^verbatim>\<open>np.mean\<close> of a NumPy array that is not empty;
  \<^item> \<open>series_mean\<close>: \<^verbatim>\<open>np.mean\<close> of a pandas Series that is not empty.
\<close>

record ('model, 'scaler) sklearn =
  py_float :: "string \<Rightarrow> real option"
  scaler_fit_transform :: "scaler_class \<Rightarrow> matrix \<Rightarrow> error + ('scaler \<times> matrix)"
  scaler_transform :: "'scaler \<Rightarrow> matrix \<Rightarrow> error + matrix"
  ridgecv_fit ::
    "real list \<Rightarrow> string \<Rightarrow> cross_validator \<Rightarrow> matrix \<Rightarrow> selection \<Rightarrow> error + real"
  ridge_fit :: "real \<Rightarrow> matrix \<Rightarrow> selection \<Rightarrow> error + 'model"
  gridsearchcv_fit ::
    "svr_param_grid \<Rightarrow> string \<Rightarrow> cross_validator \<Rightarrow> int \<Rightarrow> matrix \<Rightarrow> selection
       \<Rightarrow> error + svr_params"
  svr_fit :: "svr_params \<Rightarrow> matrix \<Rightarrow> selection \<Rightarrow> error + 'model"
  model_predict :: "'model \<Rightarrow> matrix \<Rightarrow> error + real list"
  np_round :: "real \<Rightarrow> nat \<Rightarrow> float64"
  float_subtract :: "float64 \<Rightarrow> float64 \<Rightarrow> float64"
  ndarray_mean :: "float64 list \<Rightarrow> float64"
  series_mean :: "float64 list \<Rightarrow> float64"

text \<open>
  \<^verbatim>\<open>.astype('float64')\<close>: every cell is converted; the first string that is not a float
  raises ValueError.
\<close>

fun cell_to_float :: "('m, 's) sklearn \<Rightarrow> cell \<Rightarrow> error + real" where
  "cell_to_float lib (Num x) = Inr x"
| "cell_to_float lib (Str s) =
     (case py_float lib s of
        None \<Rightarrow> Inl (ValueError (''could not convert string to float: '' @ s))
      | Some x \<Rightarrow> Inr x)"

fun cells_to_float :: "('m, 's) sklearn \<Rightarrow> cell list \<Rightarrow> error + real list" where
  "cells_to_float lib [] = Inr []"
| "cells_to_float lib (c # cs) =
     (case cell_to_float lib c of
        Inl e \<Rightarrow> Inl e
      | Inr x \<Rightarrow>
          (case cells_to_float lib cs of
             Inl e \<Rightarrow> Inl e
           | Inr xs \<Rightarrow> Inr (x # xs)))"

fun astype_float64 :: "('m, 's) sklearn \<Rightarrow> dataframe \<Rightarrow> error + matrix" where
  "astype_float64 lib [] = Inr []"
| "astype_float64 lib ((name, cells) # cols) =
     (case cells_to_float lib cells of
        Inl e \<Rightarrow> Inl e
      | Inr xs \<Rightarrow>
          (case astype_float64 lib cols of
             Inl e \<Rightarrow> Inl e
           | Inr m \<Rightarrow> Inr ((name, xs) # m)))"

subsection \<open>train\_model\<close>

text \<open>
  \<^verbatim>\<open>np.linspace(start, stop, num)\<close> with the end point included: \<open>num\<close> samples,
  \<open>start + i * step\<close> with \<open>step = (stop - start) / (num - 1)\<close>, the last one set to
  \<open>stop\<close>.
\<close>

definition linspace :: "real \<Rightarrow> real \<Rightarrow> nat \<Rightarrow> real list" where
  "linspace start stop num =
     (let delta = stop - start;
          y = (if num - 1 > 0
               then map (\<lambda>i. real i * (delta / real (num - 1)) + start) [0..<num]
               else map (\<lambda>i. real i * delta + start) [0..<num])
      in if num > 1 then y[num - 1 := stop] else y)"

text \<open>\<^verbatim>\<open>alphas = 10**np.linspace(10, -2, 100) * 0.5\<close>\<close>

definition alphas :: "real list" where
  "alphas = map (\<lambda>e. 10 powr e * 0.5) (linspace 10 (- 2) 100)"

text \<open>
  The candidates of the ridge search as the specification words them: a geometric
  sequence of \<open>n\<close> strengths, given by its first element and the ratio of neighbours.
\<close>

definition geometric_strengths :: "real \<Rightarrow> real \<Rightarrow> nat \<Rightarrow> real list" where
  "geometric_strengths first ratio n = map (\<lambda>i. first * ratio ^ i) [0..<n]"

text \<open>\<^verbatim>\<open>cv = RepeatedKFold(n_splits=5, n_repeats=10, random_state=1)\<close>\<close>

definition cv :: cross_validator where
  "cv = \<lparr>n_splits = 5, n_repeats = 10, random_state = 1\<rparr>"

definition param_grid :: svr_param_grid where
  "param_grid =
     \<lparr>grid_C = [0.1, 1, 10, 100],
      grid_epsilon = [0.01, 0.1, 1],
      grid_kernel = [''linear'', ''rbf'']\<rparr>"

text \<open>
  \<^verbatim>\<open>
  def train_model(X_train, y_train, model_type='ridge', scaler_type='minmax'):
      scaler = MinMaxScaler() if scaler_type == 'minmax' else StandardScaler()
      X_train_normalized = scaler.fit_transform(X_train)
      cv = RepeatedKFold(n_splits=5, n_repeats=10, random_state=1)
      if model_type == 'ridge':
          alphas = 10**np.linspace(10, -2, 100) * 0.5
          ridgecv = RidgeCV(alphas=alphas, scoring='neg_mean_absolute_error', cv=cv)
          ridgecv.fit(X_train_normalized, y_train)
          final_model = Ridge(alpha=ridgecv.alpha_)
      elif model_type == 'svm':
          param_grid = {...}
          svr = SVR()
          grid_search = GridSearchCV(svr, param_grid,
                                     scoring='neg_mean_absolute_error', cv=cv, n_jobs=-1)
          grid_search.fit(X_train_normalized, y_train)
          final_model = SVR(**grid_search.best_params_)
      else:
          raise ValueError(f"Unsupported model type: {model_type}")
      final_model.fit(X_train_normalized, y_train)
      return final_model, scaler
  \<close>
\<close>

definition train_model ::
  "('m, 's) sklearn \<Rightarrow> matrix \<Rightarrow> selection \<Rightarrow> string \<Rightarrow> string \<Rightarrow> error + ('m \<times> 's)" where
  "train_model lib X_train y_train model_type scaler_type =
     (let scaler_cls = (if scaler_type = ''minmax'' then MinMaxScaler else StandardScaler) in
      case scaler_fit_transform lib scaler_cls X_train of
        Inl e \<Rightarrow> Inl e
      | Inr (scaler, X_train_normalized) \<Rightarrow>
          if model_type = ''ridge'' then
            (case ridgecv_fit lib alphas ''neg_mean_absolute_error'' cv
                    X_train_normalized y_train of
               Inl e \<Rightarrow> Inl e
             | Inr alpha \<Rightarrow>
                 (case ridge_fit lib alpha X_train_normalized y_train of
                    Inl e \<Rightarrow> Inl e
                  | Inr final_model \<Rightarrow> Inr (final_model, scaler)))
          else if model_type = ''svm'' then
            (case gridsearchcv_fit lib param_grid ''neg_mean_absolute_error'' cv (- 1)
                    X_train_normalized y_train of
               Inl e \<Rightarrow> Inl e
             | Inr best_params \<Rightarrow>
                 (case svr_fit lib best_params X_train_normalized y_train of
                    Inl e \<Rightarrow> Inl e
                  | Inr final_model \<Rightarrow> Inr (final_model, scaler)))
          else Inl (ValueError (''Unsupported model type: '' @ model_type)))"

subsection \<open>predict\_ages\<close>

text \<open>
  \<^verbatim>\<open>
  def predict_ages(model, scaler, X):
      X_normalized = scaler.transform(X)
      predictions = model.predict(X_normalized)
      return np.round(predictions, 3)
  \<close>
\<close>

definition predict_ages ::
  "('m, 's) sklearn \<Rightarrow> 'm \<Rightarrow> 's \<Rightarrow> matrix \<Rightarrow> error + float64 list" where
  "predict_ages lib model scaler X =
     (case scaler_transform lib scaler X of
        Inl e \<Rightarrow> Inl e
      | Inr X_normalized \<Rightarrow>
          (case model_predict lib model X_normalized of
             Inl e \<Rightarrow> Inl e
           | Inr predictions \<Rightarrow> Inr (map (\<lambda>p. np_round lib p 3) predictions)))"

subsection \<open>evaluate\_feature\_ablation\<close>

text \<open>
  The seven column lists imported from the module \<^verbatim>\<open>imaging_features\<close>, and the list of
  their names that the notebook zips the results with (\<^verbatim>\<open>feature_sets\<close>).
\<close>

record imaging_features =
  hyperintensities_flair :: "string list"
  dti :: "string list"
  cbf :: "string list"
  resting_state_activation :: "string list"
  ventricular_volume :: "string list"
  surface_area :: "string list"
  cortical_thickness :: "string list"

definition feature_sets :: "string list" where
  "feature_sets =
     [''hyperintensities_flair'', ''dti'', ''cbf'', ''resting_state_activation'',
      ''ventricular_volume'', ''surface_area'', ''cortical_thickness'']"

text \<open>The column list that a name of \<open>feature_sets\<close> stands for.\<close>

definition feature_columns :: "imaging_features \<Rightarrow> string \<Rightarrow> string list" where
  "feature_columns F name =
     (if name = ''hyperintensities_flair'' then hyperintensities_flair F
      else if name = ''dti'' then dti F
      else if name = ''cbf'' then cbf F
      else if name = ''resting_state_activation'' then resting_state_activation F
      else if name = ''ventricular_volume'' then ventricular_volume F
      else if name = ''surface_area'' then surface_area F
      else if name = ''cortical_thickness'' then cortical_thickness F
      else [])"

text \<open>
  The list the loop of \<^verbatim>\<open>evaluate_feature_ablation\<close> runs over:
  \<^verbatim>\<open>[hyperintensities_flair, dti, cbf, resting_state_activation, ventricular_volume,
     surface_area, cortical_thickness]\<close>
\<close>

definition loop_features :: "imaging_features \<Rightarrow> string list list" where
  "loop_features F =
     [hyperintensities_flair F, dti F, cbf F, resting_state_activation F,
      ventricular_volume F, surface_area F, cortical_thickness F]"

text \<open>\<^verbatim>\<open>df.drop(['Age at Visit', 'BD#', 'Dx'] + feature, axis=1).astype('float64')\<close>\<close>

definition drop_astype ::
  "('m, 's) sklearn \<Rightarrow> dataframe \<Rightarrow> string list \<Rightarrow> error + matrix" where
  "drop_astype lib df feature =
     (case drop_columns ([''Age at Visit'', ''BD#'', ''Dx''] @ feature) df of
        Inl e \<Rightarrow> Inl e
      | Inr d \<Rightarrow> astype_float64 lib d)"

text \<open>
  \<^verbatim>\<open>
  def evaluate_feature_ablation(df_train_control, df_test_disease, model_type,
                                scalar_type, df_test_control=None):
      results_disease = []
      results_control = []
      for feature in [hyperintensities_flair, dti, cbf, resting_state_activation,
                      ventricular_volume, surface_area, cortical_thickness]:
          X_train_control = df_train_control.drop(
              ['Age at Visit', 'BD#', 'Dx'] + feature, axis=1).astype('float64')
          X_test_disease = df_test_disease.drop(
              ['Age at Visit', 'BD#', 'Dx'] + feature, axis=1).astype('float64')
          y_train_control = df_train_control['Age at Visit']
          model, scaler = train_model(X_train_control, y_train_control,
                                      model_type=model_type, scaler_type=scalar_type)
          y_pred_disease = predict_ages(model, scaler, X_test_disease)
          results_disease.append(y_pred_disease)
          if df_test_control is not None:
              X_test_control = df_test_control.drop(
                  ['Age at Visit', 'BD#', 'Dx'] + feature, axis=1).astype('float64')
              y_pred_control = predict_ages(model, scaler, X_test_control)
              results_control.append(y_pred_control)
      return results_disease, results_control
  \<close>
  The loop carries the two result lists; an exception in any iteration ends the call.
\<close>

fun ablation_loop ::
  "('m, 's) sklearn \<Rightarrow> dataframe \<Rightarrow> dataframe \<Rightarrow> string \<Rightarrow> string \<Rightarrow> dataframe option
     \<Rightarrow> string list list \<Rightarrow> float64 list list \<Rightarrow> float64 list list
     \<Rightarrow> error + (float64 list list \<times> float64 list list)" where
  "ablation_loop lib df_train_control df_test_disease model_type scalar_type
     df_test_control [] results_disease results_control =
     Inr (results_disease, results_control)"
| "ablation_loop lib df_train_control df_test_disease model_type scalar_type
     df_test_control (feature # rest) results_disease results_control =
     (case drop_astype lib df_train_control feature of
        Inl e \<Rightarrow> Inl e
      | Inr X_train_control \<Rightarrow>
     (case drop_astype lib df_test_disease feature of
        Inl e \<Rightarrow> Inl e
      | Inr X_test_disease \<Rightarrow>
     (case getitem df_train_control ''Age at Visit'' of
        Inl e \<Rightarrow> Inl e
      | Inr y_train_control \<Rightarrow>
     (case train_model lib X_train_control y_train_control model_type scalar_type of
        Inl e \<Rightarrow> Inl e
      | Inr (model, scaler) \<Rightarrow>
     (case predict_ages lib model scaler X_test_disease of
        Inl e \<Rightarrow> Inl e
      | Inr y_pred_disease \<Rightarrow>
     (case df_test_control of
        None \<Rightarrow>
          ablation_loop lib df_train_control df_test_disease model_type scalar_type
            df_test_control rest (results_disease @ [y_pred_disease]) results_control
      | Some df_control \<Rightarrow>
          (case drop_astype lib df_control feature of
             Inl e \<Rightarrow> Inl e
           | Inr X_test_control \<Rightarrow>
          (case predict_ages lib model scaler X_test_control of
             Inl e \<Rightarrow> Inl e
           | Inr y_pred_control \<Rightarrow>
               ablation_loop lib df_train_control df_test_disease model_type scalar_type
                 df_test_control rest (results_disease @ [y_pred_disease])
                 (results_control @ [y_pred_control])))))))))"

definition evaluate_feature_ablation ::
  "('m, 's) sklearn \<Rightarrow> imaging_features \<Rightarrow> dataframe \<Rightarrow> dataframe \<Rightarrow> string \<Rightarrow> string
     \<Rightarrow> dataframe option \<Rightarrow> error + (float64 list list \<times> float64 list list)" where
  "evaluate_feature_ablation lib F df_train_control df_test_disease model_type scalar_type
     df_test_control =
     ablation_loop lib df_train_control df_test_disease model_type scalar_type
       df_test_control (loop_features F) [] []"

subsection \<open>calculate\_mae\<close>

text \<open>
  The second argument of \<^verbatim>\<open>calculate_mae\<close> is documented as a NumPy array and is a pandas
  Series (\<^verbatim>\<open>df['Age at Visit']\<close>) at every call of the notebook; both are modelled.
  The predictions are NumPy arrays (the results of \<^verbatim>\<open>np.round\<close>).
\<close>

datatype array_like = NdArray "float64 list" | Series "float64 list"

fun values_of :: "array_like \<Rightarrow> float64 list" where
  "values_of (NdArray ys) = ys"
| "values_of (Series ys) = ys"

text \<open>
  \<^verbatim>\<open>a - b\<close> on two one-dimensional arrays. NumPy broadcasts: the shapes \<open>(n,)\<close> and
  \<open>(m,)\<close> are compatible when \<open>n = m\<close> or one of them is 1, and the array of length 1 is
  stretched; otherwise the subtraction raises ValueError.
\<close>

definition np_subtract ::
  "('m, 's) sklearn \<Rightarrow> float64 list \<Rightarrow> float64 list \<Rightarrow> error + float64 list" where
  "np_subtract lib a b =
     (if length a = length b then Inr (map (\<lambda>(x, y). float_subtract lib x y) (zip a b))
      else if length a = 1 then Inr (map (\<lambda>y. float_subtract lib (hd a) y) b)
      else if length b = 1 then Inr (map (\<lambda>x. float_subtract lib x (hd b)) a)
      else Inl (ValueError ''operands could not be broadcast together''))"

text \<open>
  \<^verbatim>\<open>predictions - y_test\<close> with \<^verbatim>\<open>predictions\<close> a NumPy array. When \<^verbatim>\<open>y_test\<close> is a
  Series, pandas computes the difference of the values as NumPy does and wraps the result
  with the index of \<^verbatim>\<open>y_test\<close>, which raises ValueError when the lengths differ.
\<close>

fun subtract :: "('m, 's) sklearn \<Rightarrow> float64 list \<Rightarrow> array_like \<Rightarrow> error + array_like" where
  "subtract lib predictions (NdArray ys) =
     (case np_subtract lib predictions ys of
        Inl e \<Rightarrow> Inl e
      | Inr d \<Rightarrow> Inr (NdArray d))"
| "subtract lib predictions (Series ys) =
     (case np_subtract lib predictions ys of
        Inl e \<Rightarrow> Inl e
      | Inr d \<Rightarrow>
          if length d = length ys then Inr (Series d)
          else Inl (ValueError ''Length of values does not match length of index''))"

fun np_abs :: "array_like \<Rightarrow> array_like" where
  "np_abs (NdArray xs) = NdArray (map fabs xs)"
| "np_abs (Series xs) = Series (map fabs xs)"

text \<open>\<^verbatim>\<open>np.mean\<close>: the mean of an empty array is NaN (with a warning, not an exception).\<close>

fun np_mean :: "('m, 's) sklearn \<Rightarrow> array_like \<Rightarrow> float64" where
  "np_mean lib (NdArray []) = NaN"
| "np_mean lib (NdArray (x # xs)) = ndarray_mean lib (x # xs)"
| "np_mean lib (Series []) = NaN"
| "np_mean lib (Series (x # xs)) = series_mean lib (x # xs)"

text \<open>
  \<^verbatim>\<open>
  def calculate_mae(predictions_list, y_test):
      mae_results = []
      for predictions in predictions_list:
          mae = np.mean(np.abs(predictions - y_test))
          mae_results.append(mae)
      return mae_results
  \<close>
  The loop, with the list under construction as an accumulator.
\<close>

fun mae_loop ::
  "('m, 's) sklearn \<Rightarrow> float64 list list \<Rightarrow> array_like \<Rightarrow> float64 list
     \<Rightarrow> error + float64 list" where
  "mae_loop lib [] y_test mae_results = Inr mae_results"
| "mae_loop lib (predictions # rest) y_test mae_results =
     (case subtract lib predictions y_test of
        Inl e \<Rightarrow> Inl e
      | Inr d \<Rightarrow> mae_loop lib rest y_test (mae_results @ [np_mean lib (np_abs d)]))"

definition calculate_mae ::
  "('m, 's) sklearn \<Rightarrow> float64 list list \<Rightarrow> array_like \<Rightarrow> error + float64 list" where
  "calculate_mae lib predictions_list y_test = mae_loop lib predictions_list y_test []"

subsection \<open>The score, as the specification words it\<close>

text \<open>An array of the kind of \<open>y\<close> (NumPy array or Series) with the given values.\<close>

fun like_array :: "array_like \<Rightarrow> float64 list \<Rightarrow> array_like" where
  "like_array (NdArray ys) xs = NdArray xs"
| "like_array (Series ys) xs = Series xs"

text \<open>
  The score of one prediction result against the ground truth: the elementwise absolute
  differences, averaged.
\<close>

definition mean_abs_error :: "('m, 's) sklearn \<Rightarrow> float64 list \<Rightarrow> array_like \<Rightarrow> float64" where
  "mean_abs_error lib p y =
     np_mean lib
       (like_array y (map (\<lambda>(a, b). fabs (float_subtract lib a b)) (zip p (values_of y))))"

text \<open>
  What the properties of the scores need of the floating-point operations, and what IEEE
  754 arithmetic gives: the difference of two finite numbers is not NaN, the difference
  of a finite number and itself is zero, the mean of numbers that are all \<open>\<ge> 0\<close> is
  \<open>\<ge> 0\<close>, and the mean of zeros is zero.
\<close>

definition ieee_arithmetic :: "('m, 's) sklearn \<Rightarrow> bool" where
  "ieee_arithmetic lib \<longleftrightarrow>
     (\<forall>x y. float_subtract lib (Finite x) (Finite y) \<noteq> NaN) \<and>
     (\<forall>x. float_subtract lib (Finite x) (Finite x) = Finite 0) \<and>
     (\<forall>xs. xs \<noteq> [] \<and> (\<forall>v\<in>set xs. non_negative v) \<longrightarrow>
        non_negative (ndarray_mean lib xs) \<and> non_negative (series_mean lib xs)) \<and>
     (\<forall>xs. xs \<noteq> [] \<and> (\<forall>v\<in>set xs. v = Finite 0) \<longrightarrow>
        ndarray_mean lib xs = Finite 0 \<and> series_mean lib xs = Finite 0)"

subsection \<open>One iteration, as the specification words it\<close>

text \<open>
  The training of one group: remove the three non-feature columns and the group's columns
  from the training cohort, and train on what remains against the chronological-age
  column.
\<close>

definition train_without ::
  "('m, 's) sklearn \<Rightarrow> dataframe \<Rightarrow> string \<Rightarrow> string \<Rightarrow> string list \<Rightarrow> error + ('m \<times> 's)" where
  "train_without lib train_cohort model_kind scaler_kind feature =
     (case drop_astype lib train_cohort feature of
        Inl e \<Rightarrow> Inl e
      | Inr features \<Rightarrow>
          (case getitem train_cohort ''Age at Visit'' of
             Inl e \<Rightarrow> Inl e
           | Inr ages \<Rightarrow> train_model lib features ages model_kind scaler_kind))"

text \<open>
  The prediction for one cohort with a trained model artifact: remove the same columns
  from the cohort and predict on what remains.
\<close>

definition predict_without ::
  "('m, 's) sklearn \<Rightarrow> ('m \<times> 's) \<Rightarrow> dataframe \<Rightarrow> string list \<Rightarrow> error + float64 list" where
  "predict_without lib artifact cohort feature =
     (case drop_astype lib cohort feature of
        Inl e \<Rightarrow> Inl e
      | Inr features \<Rightarrow> predict_ages lib (fst artifact) (snd artifact) features)"

text \<open>The prediction result of one group for one cohort.\<close>

definition ablation_result ::
  "('m, 's) sklearn \<Rightarrow> dataframe \<Rightarrow> string \<Rightarrow> string \<Rightarrow> dataframe \<Rightarrow> string list
     \<Rightarrow> error + float64 list" where
  "ablation_result lib train_cohort model_kind scaler_kind cohort feature =
     (case train_without lib train_cohort model_kind scaler_kind feature of
        Inl e \<Rightarrow> Inl e
      | Inr artifact \<Rightarrow> predict_without lib artifact cohort feature)"

fun succeeds :: "'e + 'a \<Rightarrow> bool" where
  "succeeds (Inl e) = False"
| "succeeds (Inr v) = True"

subsection \<open>The loop with the objects it creates\<close>






subsection \<open>A small instance for running the pipeline\<close>

text \<open>
  A stand-in for the library, used only to run the functions above on concrete tables.
  Its scaler leaves the values unchanged; like scikit-learn's scalers it rejects a table
  without columns or without rows, and at \<open>transform\<close> a table whose column labels are not
  those seen at \<open>fit\<close>. Its regression model predicts the mean of the training ages for
  every row. No string converts to a float. Its floating-point operations are exact:
  they round a real to the nearest multiple of the power of ten, halves to the even
  neighbour, subtract and average without rounding, and follow IEEE 754 on infinities
  and NaN; the mean of a Series skips NaN.
\<close>

definition rint :: "real \<Rightarrow> int" where
  "rint x =
     (let f = \<lfloor>x\<rfloor>; d = x - of_int f in
      if d < 1 / 2 then f
      else if 1 / 2 < d then f + 1
      else if even f then f else f + 1)"

definition demo_round :: "real \<Rightarrow> nat \<Rightarrow> float64" where
  "demo_round x decimals = Finite (of_int (rint (x * 10 ^ decimals)) / 10 ^ decimals)"

fun demo_subtract :: "float64 \<Rightarrow> float64 \<Rightarrow> float64" where
  "demo_subtract (Finite x) (Finite y) = Finite (x - y)"
| "demo_subtract NaN b = NaN"
| "demo_subtract a NaN = NaN"
| "demo_subtract PosInf PosInf = NaN"
| "demo_subtract NegInf NegInf = NaN"
| "demo_subtract PosInf b = PosInf"
| "demo_subtract NegInf b = NegInf"
| "demo_subtract (Finite x) PosInf = NegInf"
| "demo_subtract (Finite x) NegInf = PosInf"

fun demo_value :: "float64 \<Rightarrow> real" where
  "demo_value (Finite x) = x"
| "demo_value v = 0"

definition demo_mean :: "float64 list \<Rightarrow> float64" where
  "demo_mean xs =
     (if NaN \<in> set xs \<or> (PosInf \<in> set xs \<and> NegInf \<in> set xs) then NaN
      else if PosInf \<in> set xs then PosInf
      else if NegInf \<in> set xs then NegInf
      else Finite (sum_list (map demo_value xs) / real (length xs)))"

definition demo_series_mean :: "float64 list \<Rightarrow> float64" where
  "demo_series_mean xs =
     (case filter (\<lambda>v. v \<noteq> NaN) xs of
        [] \<Rightarrow> NaN
      | v # vs \<Rightarrow> demo_mean (v # vs))"

fun demo_ages :: "cell list \<Rightarrow> error + real list" where
  "demo_ages [] = Inr []"
| "demo_ages (Num x # cs) =
     (case demo_ages cs of Inl e \<Rightarrow> Inl e | Inr xs \<Rightarrow> Inr (x # xs))"
| "demo_ages (Str s # cs) = Inl (ValueError (''could not convert string to float: '' @ s))"

definition demo_fit :: "matrix \<Rightarrow> selection \<Rightarrow> error + real" where
  "demo_fit X y =
     (case y of
        Column cells \<Rightarrow>
          (case demo_ages cells of
             Inl e \<Rightarrow> Inl e
           | Inr [] \<Rightarrow> Inl (ValueError ''Found array with 0 sample(s)'')
           | Inr (v # vs) \<Rightarrow> Inr (sum_list (v # vs) / real (length (v # vs))))
      | Columns cols \<Rightarrow> Inl (ValueError ''y should be a 1d array''))"

definition demo_check :: "matrix \<Rightarrow> error + matrix" where
  "demo_check X =
     (case X of
        [] \<Rightarrow> Inl (ValueError ''at least one array or dtype is required'')
      | (name, []) # cols \<Rightarrow> Inl (ValueError ''Found array with 0 sample(s)'')
      | (name, v # vs) # cols \<Rightarrow> Inr X)"

definition demo_predict :: "real \<Rightarrow> matrix \<Rightarrow> error + real list" where
  "demo_predict model X =
     (case X of
        [] \<Rightarrow> Inl (ValueError ''at least one array or dtype is required'')
      | (name, vs) # cols \<Rightarrow> Inr (map (\<lambda>v. model) vs))"

definition demo_sklearn :: "(real, scaler_class \<times> string list) sklearn" where
  "demo_sklearn =
     \<lparr>py_float = (\<lambda>s. None),
      scaler_fit_transform = (\<lambda>cls X.
        case demo_check X of
          Inl e \<Rightarrow> Inl e
        | Inr X' \<Rightarrow> Inr ((cls, map fst X), X')),
      scaler_transform = (\<lambda>scaler X.
        if map fst X = snd scaler then demo_check X
        else Inl (ValueError ''The feature names should match those that were passed during fit'')),
      ridgecv_fit = (\<lambda>candidates scoring folds X y.
        case demo_fit X y of Inl e \<Rightarrow> Inl e | Inr m \<Rightarrow> Inr (last candidates)),
      ridge_fit = (\<lambda>alpha X y. demo_fit X y),
      gridsearchcv_fit = (\<lambda>grid scoring folds n_jobs X y.
        case demo_fit X y of
          Inl e \<Rightarrow> Inl e
        | Inr m \<Rightarrow>
            Inr \<lparr>svr_C = hd (grid_C grid), svr_epsilon = hd (grid_epsilon grid),
                 svr_kernel = hd (grid_kernel grid)\<rparr>),
      svr_fit = (\<lambda>params X y. demo_fit X y),
      model_predict = demo_predict,
      np_round = demo_round,
      float_subtract = demo_subtract,
      ndarray_mean = demo_mean,
      series_mean = demo_series_mean\<rparr>"

text \<open>Seven groups of one column each, a training cohort of two subjects, a disease cohort
  of one subject and a control test cohort of three.\<close>

definition demo_features :: imaging_features where
  "demo_features =
     \<lparr>hyperintensities_flair = [''f1''], dti = [''f2''], cbf = [''f3''],
      resting_state_activation = [''f4''], ventricular_volume = [''f5''],
      surface_area = [''f6''], cortical_thickness = [''f7'']\<rparr>"

definition demo_train :: dataframe where
  "demo_train =
     [(''BD#'', [Str ''s1'', Str ''s2'']), (''Dx'', [Str ''HC'', Str ''HC'']),
      (''Age at Visit'', [Num 40, Num 50]),
      (''f1'', [Num 1, Num 2]), (''f2'', [Num 3, Num 4]), (''f3'', [Num 5, Num 6]),
      (''f4'', [Num 7, Num 8]), (''f5'', [Num 9, Num 10]), (''f6'', [Num 11, Num 12]),
      (''f7'', [Num 13, Num 14])]"

definition demo_disease :: dataframe where
  "demo_disease =
     [(''BD#'', [Str ''s3'']), (''Dx'', [Str ''BD'']), (''Age at Visit'', [Num 30]),
      (''f1'', [Num 1]), (''f2'', [Num 2]), (''f3'', [Num 3]), (''f4'', [Num 4]),
      (''f5'', [Num 5]), (''f6'', [Num 6]), (''f7'', [Num 7])]"

definition demo_control :: dataframe where
  "demo_control =
     [(''BD#'', [Str ''s4'', Str ''s5'', Str ''s6'']),
      (''Dx'', [Str ''HC'', Str ''HC'', Str ''HC'']),
      (''Age at Visit'', [Num 35, Num 45, Num 55]),
      (''f1'', [Num 1, Num 1, Num 1]), (''f2'', [Num 2, Num 2, Num 2]),
      (''f3'', [Num 3, Num 3, Num 3]), (''f4'', [Num 4, Num 4, Num 4]),
      (''f5'', [Num 5, Num 5, Num 5]), (''f6'', [Num 6, Num 6, Num 6]),
      (''f7'', [Num 7, Num 7, Num 7])]"

text \<open>A training table with the required columns and no subject.\<close>

definition demo_empty :: matrix where
  "demo_empty = [(''f1'', [])]"

section \<open>Properties\<close>

subsection \<open>calculate\_mae: lengths\<close>





lemma np_abs_like_array: "np_abs (like_array y xs) = like_array y (map fabs xs)"
  by (cases y) simp_all

lemma subtract_same_length:
  "length p = length (values_of y) \<Longrightarrow>
   subtract lib p y = Inr (like_array y (map (\<lambda>(a, b). float_subtract lib a b) (zip p (values_of y))))"
  by (cases y) (simp_all add: np_subtract_def)


lemma score_same_length:
  assumes "length p = length (values_of y)"
  shows "\<exists>d. subtract lib p y = Inr d \<and> np_mean lib (np_abs d) = mean_abs_error lib p y"
proof -
  have "fabs \<circ> (\<lambda>(a, b). float_subtract lib a b) = (\<lambda>(a, b). fabs (float_subtract lib a b))"
    by (simp add: fun_eq_iff)
  then have "map fabs (map (\<lambda>(a, b). float_subtract lib a b) (zip p (values_of y))) =
        map (\<lambda>(a, b). fabs (float_subtract lib a b)) (zip p (values_of y))"
    by (simp only: map_map)
  then have "np_mean lib (np_abs (like_array y
        (map (\<lambda>(a, b). float_subtract lib a b) (zip p (values_of y))))) =
      mean_abs_error lib p y"
    by (simp only: np_abs_like_array mean_abs_error_def)
  with subtract_same_length [OF assms, of lib] show ?thesis
    by blast
qed

lemma mae_loop_same_length:
  "\<forall>p\<in>set ps. length p = length (values_of y) \<Longrightarrow>
   mae_loop lib ps y acc = Inr (acc @ map (\<lambda>p. mean_abs_error lib p y) ps)"
proof (induction ps arbitrary: acc)
  case Nil
  then show ?case by simp
next
  case (Cons p ps)
  from Cons.prems have "length p = length (values_of y)" by simp
  from score_same_length [OF this, of lib] obtain d where
    "subtract lib p y = Inr d" "np_mean lib (np_abs d) = mean_abs_error lib p y"
    by blast
  with Cons.IH Cons.prems show ?case by simp
qed





subsection \<open>calculate\_mae: the scores\<close>

lemma fabs_non_negative: "v \<noteq> NaN \<Longrightarrow> non_negative (fabs v)"
  by (cases v) simp_all

lemma np_mean_like_array_nonempty:
  "xs \<noteq> [] \<Longrightarrow> np_mean lib (like_array y xs) = ndarray_mean lib xs
     \<or> np_mean lib (like_array y xs) = series_mean lib xs"
  by (cases y; cases xs) simp_all

lemma abs_differences_non_negative:
  assumes "ieee_arithmetic lib" and "\<forall>v\<in>set p. is_finite v" and "\<forall>v\<in>set ys. is_finite v"
  shows "\<forall>v\<in>set (map (\<lambda>(a, b). fabs (float_subtract lib a b)) (zip p ys)). non_negative v"
proof -
  have "non_negative (fabs (float_subtract lib a b))" if "(a, b) \<in> set (zip p ys)" for a b
  proof -
    from that assms(2,3) have "is_finite a" "is_finite b"
      by (auto dest: set_zip_leftD set_zip_rightD)
    then obtain x y where "a = Finite x" "b = Finite y"
      by (cases a; cases b) auto
    with assms(1) have "float_subtract lib a b \<noteq> NaN"
      by (simp add: ieee_arithmetic_def)
    then show ?thesis
      by (rule fabs_non_negative)
  qed
  then show ?thesis
    by auto
qed

lemma abs_differences_zero:
  assumes "ieee_arithmetic lib" and "\<forall>v\<in>set ys. is_finite v"
  shows "\<forall>v\<in>set (map (\<lambda>(a, b). fabs (float_subtract lib a b)) (zip ys ys)). v = Finite 0"
proof -
  have "fabs (float_subtract lib a b) = Finite 0" if "(a, b) \<in> set (zip ys ys)" for a b
  proof -
    from that have "a = b" "a \<in> set ys"
      by (auto simp: zip_same)
    with assms(2) obtain x where "a = Finite x" "b = Finite x"
      by (cases a) auto
    with assms(1) show ?thesis
      by (simp add: ieee_arithmetic_def)
  qed
  then show ?thesis
    by auto
qed

lemma mean_abs_error_non_negative:
  assumes "ieee_arithmetic lib" and "length p = length (values_of y)" and "values_of y \<noteq> []"
    and "\<forall>v\<in>set p. is_finite v" and "\<forall>v\<in>set (values_of y). is_finite v"
  shows "non_negative (mean_abs_error lib p y)"
proof -
  let ?ds = "map (\<lambda>(a, b). fabs (float_subtract lib a b)) (zip p (values_of y))"
  from assms(2,3) have ne: "?ds \<noteq> []"
    by (cases p; cases "values_of y") auto
  from abs_differences_non_negative [OF assms(1,4,5)]
  have "\<forall>v\<in>set ?ds. non_negative v" .
  with assms(1) ne have "non_negative (ndarray_mean lib ?ds)" "non_negative (series_mean lib ?ds)"
    unfolding ieee_arithmetic_def by blast+
  with np_mean_like_array_nonempty [OF ne, of lib y] show ?thesis
    unfolding mean_abs_error_def by auto
qed

lemma mean_abs_error_zero:
  assumes "ieee_arithmetic lib" and "values_of y \<noteq> []" and "\<forall>v\<in>set (values_of y). is_finite v"
  shows "is_zero (mean_abs_error lib (values_of y) y)"
proof -
  let ?ds = "map (\<lambda>(a, b). fabs (float_subtract lib a b)) (zip (values_of y) (values_of y))"
  from assms(2) have ne: "?ds \<noteq> []"
    by (cases "values_of y") auto
  from abs_differences_zero [OF assms(1,3)] have "\<forall>v\<in>set ?ds. v = Finite 0" .
  with assms(1) ne have "ndarray_mean lib ?ds = Finite 0" "series_mean lib ?ds = Finite 0"
    unfolding ieee_arithmetic_def by blast+
  with np_mean_like_array_nonempty [OF ne, of lib y] show ?thesis
    unfolding mean_abs_error_def by auto
qed

lemma demo_mean_non_negative:
  assumes "xs \<noteq> []" and "\<forall>v\<in>set xs. non_negative v"
  shows "non_negative (demo_mean xs)"
proof -
  from assms(2) have no: "NaN \<notin> set xs" "NegInf \<notin> set xs"
    by auto
  have "0 \<le> demo_value v" if "v \<in> set xs" for v
    using assms(2) that by (cases v) auto
  then have "0 \<le> sum_list (map demo_value xs)"
    by (intro sum_list_nonneg) auto
  with no show ?thesis
    by (simp add: demo_mean_def)
qed

lemma demo_mean_zero:
  assumes "xs \<noteq> []" and "\<forall>v\<in>set xs. v = Finite 0"
  shows "demo_mean xs = Finite 0"
proof -
  from assms(2) have no: "NaN \<notin> set xs" "NegInf \<notin> set xs" "PosInf \<notin> set xs"
    by auto
  from assms(2) have "sum_list (map demo_value xs) = 0"
    by (induction xs) simp_all
  with no show ?thesis
    by (simp add: demo_mean_def)
qed

lemma demo_series_mean_eq:
  assumes "xs \<noteq> []" and "NaN \<notin> set xs"
  shows "demo_series_mean xs = demo_mean xs"
proof -
  from assms(2) have "filter (\<lambda>v. v \<noteq> NaN) xs = xs"
    by (intro filter_True) auto
  with assms(1) show ?thesis
    by (cases xs) (simp_all add: demo_series_mean_def)
qed

lemma demo_ieee_arithmetic: "ieee_arithmetic demo_sklearn"
proof -
  have "non_negative (demo_mean xs) \<and> non_negative (demo_series_mean xs)"
    if "xs \<noteq> []" "\<forall>v\<in>set xs. non_negative v" for xs
  proof -
    from that(2) have "NaN \<notin> set xs" by auto
    with that demo_series_mean_eq [of xs] demo_mean_non_negative [of xs] show ?thesis
      by simp
  qed
  moreover have "demo_mean xs = Finite 0 \<and> demo_series_mean xs = Finite 0"
    if "xs \<noteq> []" "\<forall>v\<in>set xs. v = Finite 0" for xs
  proof -
    from that(2) have "NaN \<notin> set xs" by auto
    with that demo_series_mean_eq [of xs] demo_mean_zero [of xs] show ?thesis
      by simp
  qed
  ultimately show ?thesis
    by (simp add: ieee_arithmetic_def demo_sklearn_def)
qed

text \<open>
  Claim C8, as the code has it. When every prediction result has the length of the ground
  truth, the ground truth is not empty and all the numbers are finite, \<^verbatim>\<open>calculate_mae\<close>
  returns one score per prediction result, in the order of the input; the score is the
  mean of the elementwise absolute differences as NumPy computes it. Under IEEE 754
  arithmetic the score is non-negative, and it is zero when the prediction result equals
  the ground truth element by element. That a zero score comes from equal arrays only is
  not stated: a float64 mean can round to zero.
\<close>

theorem calculate_mae_scores:
  assumes "ieee_arithmetic lib"
    and "\<forall>p\<in>set ps. length p = length (values_of y) \<and> (\<forall>v\<in>set p. is_finite v)"
    and "values_of y \<noteq> []" and "\<forall>v\<in>set (values_of y). is_finite v"
  shows "\<exists>ms. calculate_mae lib ps y = Inr ms \<and> length ms = length ps \<and>
           (\<forall>i<length ps.
              ms ! i = mean_abs_error lib (ps ! i) y \<and>
              non_negative (ms ! i) \<and>
              (ps ! i = values_of y \<longrightarrow> is_zero (ms ! i)))"
proof -
  let ?ms = "map (\<lambda>p. mean_abs_error lib p y) ps"
  from assms(2) have "\<forall>p\<in>set ps. length p = length (values_of y)"
    by blast
  then have run: "calculate_mae lib ps y = Inr ?ms"
    using mae_loop_same_length [of ps y lib "[]"] by (simp add: calculate_mae_def)
  have "non_negative (?ms ! i) \<and> (ps ! i = values_of y \<longrightarrow> is_zero (?ms ! i))"
    if "i < length ps" for i
  proof -
    from that assms(2) have "length (ps ! i) = length (values_of y)" "\<forall>v\<in>set (ps ! i). is_finite v"
      by (auto dest: nth_mem)
    from mean_abs_error_non_negative [OF assms(1) this(1) assms(3) this(2) assms(4)]
      mean_abs_error_zero [OF assms(1,3,4)] that
    show ?thesis
      by auto
  qed
  with run show ?thesis
    by (intro exI [of _ ?ms]) simp
qed

text \<open>
  The theorem at two prediction results, the first equal to the ground truth.
\<close>

theorem calculate_mae_scores_witness:
  "\<exists>ms. calculate_mae demo_sklearn [[Finite 1, Finite 2], [Finite 3, Finite 5]]
          (Series [Finite 1, Finite 2]) = Inr ms \<and> length ms = 2 \<and>
     is_zero (ms ! 0) \<and> non_negative (ms ! 1) \<and>
     ms ! 1 = mean_abs_error demo_sklearn [Finite 3, Finite 5] (Series [Finite 1, Finite 2])"
proof -
  let ?ps = "[[Finite 1, Finite 2], [Finite 3, Finite 5]]" and ?y = "Series [Finite 1, Finite 2]"
  have h: "\<forall>p\<in>set ?ps. length p = length (values_of ?y) \<and> (\<forall>v\<in>set p. is_finite v)"
    by simp
  have ne: "values_of ?y \<noteq> []"
    by simp
  have fin: "\<forall>v\<in>set (values_of ?y). is_finite v"
    by simp
  from calculate_mae_scores [OF demo_ieee_arithmetic h ne fin] obtain ms where
    ms: "calculate_mae demo_sklearn ?ps ?y = Inr ms" "length ms = length ?ps"
    and all: "\<And>i. i < length ?ps \<Longrightarrow>
              ms ! i = mean_abs_error demo_sklearn (?ps ! i) ?y \<and>
              non_negative (ms ! i) \<and> (?ps ! i = values_of ?y \<longrightarrow> is_zero (ms ! i))"
    by blast
  have len: "length ms = 2"
    using ms(2) by simp
  have first: "is_zero (ms ! 0)"
    using all [of 0] by auto
  have second: "non_negative (ms ! 1) \<and>
      ms ! 1 = mean_abs_error demo_sklearn [Finite 3, Finite 5] (Series [Finite 1, Finite 2])"
    using all [of 1] by auto
  from ms(1) len first second show ?thesis
    by blast
qed

text \<open>
  Claim C8 as stated fails at an empty ground truth: the prediction result has the same
  length, and the score is NaN, which is neither non-negative nor zero, although no
  prediction differs from its ground-truth value.
\<close>

theorem calculate_mae_empty_counterexample:
  "length ([] :: float64 list) = length (values_of (NdArray []))
   \<and> calculate_mae demo_sklearn [[]] (NdArray []) = Inr [NaN]
   \<and> \<not> non_negative NaN
   \<and> \<not> is_zero NaN \<and> [] = values_of (NdArray [])"
  by (simp add: calculate_mae_def np_subtract_def)

subsection \<open>train\_model: unrecognised selectors\<close>

lemma train_model_unsupported:
  assumes "model_type \<noteq> ''ridge''" and "model_type \<noteq> ''svm''"
  shows "train_model lib X y model_type scaler_type =
           (case scaler_fit_transform lib
                   (if scaler_type = ''minmax'' then MinMaxScaler else StandardScaler) X of
              Inl e \<Rightarrow> Inl e
            | Inr fitted \<Rightarrow> Inl (ValueError (''Unsupported model type: '' @ model_type)))"
  using assms by (simp add: train_model_def split: sum.splits prod.splits)

text \<open>
  Claim C6, as the code has it. With a model-kind selector other than \<^verbatim>\<open>'ridge'\<close> and
  \<^verbatim>\<open>'svm'\<close>, \<^verbatim>\<open>train_model\<close> never returns a model: it raises. The scaler is fitted
  before the selector is looked at, so when fitting the scaler succeeds the exception is
  the ValueError whose message ends with the offending selector, and when fitting the
  scaler raises, that exception is the one the caller sees.
\<close>

theorem train_model_unsupported_model_type:
  assumes "model_type \<notin> {''ridge'', ''svm''}"
  shows "(\<exists>e. train_model lib X y model_type scaler_type = Inl e)
       \<and> (succeeds (scaler_fit_transform lib
                      (if scaler_type = ''minmax'' then MinMaxScaler else StandardScaler) X)
            \<longrightarrow> train_model lib X y model_type scaler_type =
                  Inl (ValueError (''Unsupported model type: '' @ model_type)))
       \<and> (scaler_fit_transform lib
              (if scaler_type = ''minmax'' then MinMaxScaler else StandardScaler) X = Inl e
            \<longrightarrow> train_model lib X y model_type scaler_type = Inl e)"
proof -
  from assms have ne: "model_type \<noteq> ''ridge''" "model_type \<noteq> ''svm''" by auto
  show ?thesis
    unfolding train_model_unsupported [OF ne]
    by (cases "scaler_fit_transform lib
                 (if scaler_type = ''minmax'' then MinMaxScaler else StandardScaler) X") auto
qed

text \<open>
  The theorem at the selector \<^verbatim>\<open>'lasso'\<close>, with a training table of one column and two
  rows, and with a training table without columns.
\<close>

theorem train_model_unsupported_model_type_witness:
  "train_model demo_sklearn [(''f1'', [1, 2])] (Column [Num 40, Num 50]) ''lasso'' ''minmax'' =
     Inl (ValueError ''Unsupported model type: lasso'')
   \<and> train_model demo_sklearn [] (Column [Num 40, Num 50]) ''lasso'' ''standard'' =
     Inl (ValueError ''at least one array or dtype is required'')"
proof -
  have h: "''lasso'' \<notin> {''ridge'', ''svm''}"
    by simp
  have ok: "succeeds (scaler_fit_transform demo_sklearn
              (if ''minmax'' = ''minmax'' then MinMaxScaler else StandardScaler)
              [(''f1'', [1, 2])])"
    by (simp add: demo_sklearn_def demo_check_def)
  have bad: "scaler_fit_transform demo_sklearn
              (if ''standard'' = ''minmax'' then MinMaxScaler else StandardScaler) [] =
            Inl (ValueError ''at least one array or dtype is required'')"
    by (simp add: demo_sklearn_def demo_check_def)
  from train_model_unsupported_model_type [OF h, of demo_sklearn "[(''f1'', [1, 2])]"
      "Column [Num 40, Num 50]" "''minmax''"] ok
  have "train_model demo_sklearn [(''f1'', [1, 2])] (Column [Num 40, Num 50]) ''lasso'' ''minmax'' =
     Inl (ValueError ''Unsupported model type: lasso'')"
    by simp
  moreover from train_model_unsupported_model_type [OF h, of demo_sklearn "[]"
      "Column [Num 40, Num 50]" "''standard''"
      "ValueError ''at least one array or dtype is required''"] bad
  have "train_model demo_sklearn [] (Column [Num 40, Num 50]) ''lasso'' ''standard'' =
     Inl (ValueError ''at least one array or dtype is required'')"
    by blast
  ultimately show ?thesis
    by blast
qed

text \<open>
  Claim C6 as stated fails when the scaler rejects the training table (here a table
  without rows): the call fails with the scaler's exception, whose message does not name
  the selector.
\<close>

theorem train_model_scaler_error_first_counterexample:
  "''lasso'' \<notin> {''ridge'', ''svm''}
   \<and> train_model demo_sklearn demo_empty (Column []) ''lasso'' ''minmax'' =
       Inl (ValueError ''Found array with 0 sample(s)'')
   \<and> ValueError ''Found array with 0 sample(s)'' \<noteq> ValueError ''Unsupported model type: lasso''"
  by (simp add: train_model_def demo_sklearn_def demo_check_def demo_empty_def)

text \<open>
  Claim C5, as the code has it. The scaler-kind selector is compared with \<^verbatim>\<open>'minmax'\<close>
  only. With every other value, recognised or not, the scaler fitted is a StandardScaler,
  the call goes on to the search and the fit of the model kind, and the scaler returned
  is that fitted StandardScaler; the call raises only when a library call raises or the
  model kind is unsupported, exactly as with \<^verbatim>\<open>'standard'\<close>.
\<close>

theorem train_model_scaler_default:
  assumes "scaler_type \<noteq> ''minmax''"
  shows "train_model lib X y model_type scaler_type =
           (case scaler_fit_transform lib StandardScaler X of
              Inl e \<Rightarrow> Inl e
            | Inr (scaler, X_scaled) \<Rightarrow>
                if model_type = ''ridge'' then
                  (case ridgecv_fit lib alphas ''neg_mean_absolute_error'' cv X_scaled y of
                     Inl e \<Rightarrow> Inl e
                   | Inr best \<Rightarrow>
                       (case ridge_fit lib best X_scaled y of
                          Inl e \<Rightarrow> Inl e
                        | Inr model \<Rightarrow> Inr (model, scaler)))
                else if model_type = ''svm'' then
                  (case gridsearchcv_fit lib param_grid ''neg_mean_absolute_error'' cv (- 1)
                          X_scaled y of
                     Inl e \<Rightarrow> Inl e
                   | Inr best \<Rightarrow>
                       (case svr_fit lib best X_scaled y of
                          Inl e \<Rightarrow> Inl e
                        | Inr model \<Rightarrow> Inr (model, scaler)))
                else Inl (ValueError (''Unsupported model type: '' @ model_type)))
       \<and> train_model lib X y model_type scaler_type =
           train_model lib X y model_type ''standard''
       \<and> (train_model lib X y model_type scaler_type = Inr (model, scaler) \<longrightarrow>
            (\<exists>X_scaled. scaler_fit_transform lib StandardScaler X = Inr (scaler, X_scaled)))"
proof -
  have eq: "train_model lib X y model_type s =
           (case scaler_fit_transform lib StandardScaler X of
              Inl e \<Rightarrow> Inl e
            | Inr (scaler, X_scaled) \<Rightarrow>
                if model_type = ''ridge'' then
                  (case ridgecv_fit lib alphas ''neg_mean_absolute_error'' cv X_scaled y of
                     Inl e \<Rightarrow> Inl e
                   | Inr best \<Rightarrow>
                       (case ridge_fit lib best X_scaled y of
                          Inl e \<Rightarrow> Inl e
                        | Inr model \<Rightarrow> Inr (model, scaler)))
                else if model_type = ''svm'' then
                  (case gridsearchcv_fit lib param_grid ''neg_mean_absolute_error'' cv (- 1)
                          X_scaled y of
                     Inl e \<Rightarrow> Inl e
                   | Inr best \<Rightarrow>
                       (case svr_fit lib best X_scaled y of
                          Inl e \<Rightarrow> Inl e
                        | Inr model \<Rightarrow> Inr (model, scaler)))
                else Inl (ValueError (''Unsupported model type: '' @ model_type)))"
    if "s \<noteq> ''minmax''" for s
    using that by (simp add: train_model_def)
  have std: "''standard'' \<noteq> ''minmax''"
    by simp
  have "\<exists>X_scaled. scaler_fit_transform lib StandardScaler X = Inr (scaler, X_scaled)"
    if "train_model lib X y model_type scaler_type = Inr (model, scaler)"
    using that unfolding eq [OF assms]
    by (auto split: sum.splits prod.splits if_splits)
  with eq [OF assms] eq [OF std] show ?thesis
    by simp
qed

text \<open>
  The theorem at the selector \<^verbatim>\<open>'robust'\<close>.
\<close>

theorem train_model_scaler_default_witness:
  "train_model demo_sklearn [(''f1'', [1, 2])] (Column [Num 40, Num 50]) ''svm'' ''robust'' =
     Inr (45, StandardScaler, [''f1''])"
proof -
  have h: "''robust'' \<noteq> ''minmax''"
    by simp
  note inst = train_model_scaler_default [OF h, of demo_sklearn "[(''f1'', [1, 2])]"
      "Column [Num 40, Num 50]" "''svm''"]
  have "train_model demo_sklearn [(''f1'', [1, 2])] (Column [Num 40, Num 50]) ''svm'' ''robust'' =
           (case scaler_fit_transform demo_sklearn StandardScaler [(''f1'', [1, 2])] of
              Inl e \<Rightarrow> Inl e
            | Inr (scaler, X_scaled) \<Rightarrow>
                if ''svm'' = ''ridge'' then
                  (case ridgecv_fit demo_sklearn alphas ''neg_mean_absolute_error'' cv X_scaled
                          (Column [Num 40, Num 50]) of
                     Inl e \<Rightarrow> Inl e
                   | Inr best \<Rightarrow>
                       (case ridge_fit demo_sklearn best X_scaled (Column [Num 40, Num 50]) of
                          Inl e \<Rightarrow> Inl e
                        | Inr model \<Rightarrow> Inr (model, scaler)))
                else if ''svm'' = ''svm'' then
                  (case gridsearchcv_fit demo_sklearn param_grid ''neg_mean_absolute_error'' cv
                          (- 1) X_scaled (Column [Num 40, Num 50]) of
                     Inl e \<Rightarrow> Inl e
                   | Inr best \<Rightarrow>
                       (case svr_fit demo_sklearn best X_scaled (Column [Num 40, Num 50]) of
                          Inl e \<Rightarrow> Inl e
                        | Inr model \<Rightarrow> Inr (model, scaler)))
                else Inl (ValueError (''Unsupported model type: '' @ ''svm'')))"
    by (rule inst [THEN conjunct1])
  also have "\<dots> = Inr (45, StandardScaler, [''f1''])"
    by (simp add: demo_sklearn_def demo_check_def demo_fit_def)
  finally show ?thesis .
qed

text \<open>
  Claim C5 as stated fails: with the selector \<^verbatim>\<open>'robust'\<close> the call returns a model and a
  fitted scaler of class StandardScaler.
\<close>

theorem train_model_unknown_scaler_counterexample:
  "''robust'' \<notin> {''minmax'', ''standard''}
   \<and> train_model demo_sklearn [(''f1'', [1, 2])] (Column [Num 40, Num 50]) ''ridge'' ''robust'' =
       Inr (45, StandardScaler, [''f1''])"
  by (simp add: train_model_def demo_sklearn_def demo_check_def demo_fit_def)

subsection \<open>train\_model: the ridge search\<close>

lemma linspace_10_m2_100:
  "linspace 10 (- 2) 100 = map (\<lambda>i. real i * (- 12 / 99) + 10) [0..<100]"
proof (rule nth_equalityI)
  show "length (linspace 10 (- 2) 100) = length (map (\<lambda>i. real i * (- 12 / 99) + 10) [0..<100])"
    by (simp add: linspace_def)
next
  fix i
  assume "i < length (linspace 10 (- 2) 100)"
  then have i: "i < 100"
    by (simp add: linspace_def)
  then show "linspace 10 (- 2) 100 ! i = map (\<lambda>i. real i * (- 12 / 99) + 10) [0..<100] ! i"
    by (auto simp: linspace_def nth_list_update)
qed

lemma alphas_eq: "alphas = map (\<lambda>i. 10 powr (real i * (- 12 / 99) + 10) * 0.5) [0..<100]"
  unfolding alphas_def linspace_10_m2_100 by (simp add: comp_def)

lemma powr_step:
  "10 powr (real i * (- 12 / 99) + 10) * 0.5 = 0.5 * 10 ^ 10 * (10 powr (- 12 / 99)) ^ i"
proof -
  define r :: real where "r = - 12 / 99"
  have "(10 powr r) ^ i = (10 powr r) powr real i"
    by (simp add: powr_realpow)
  also have "\<dots> = 10 powr (real i * r)"
    by (simp add: powr_powr mult.commute)
  finally have pow: "(10 powr r) ^ i = 10 powr (real i * r)" .
  have ten: "(10::real) powr 10 = 10 ^ 10"
    by (simp add: powr_numeral del: power_numeral)
  have "10 powr (real i * r + 10) = 10 powr (real i * r) * 10 powr 10"
    by (rule powr_add)
  then have "10 powr (real i * r + 10) * 0.5 = 0.5 * 10 ^ 10 * (10 powr r) ^ i"
    by (simp only: pow ten mult_ac)
  then show ?thesis
    by (simp only: r_def)
qed

lemma alphas_geometric: "alphas = geometric_strengths (0.5 * 10 ^ 10) (10 powr (- 12 / 99)) 100"
  unfolding alphas_eq geometric_strengths_def by (simp only: powr_step)

lemma alphas_last: "last alphas = 0.5 * 10 powr (- 2)"
proof -
  have "last alphas = alphas ! 99"
    by (subst last_conv_nth) (simp_all add: alphas_eq)
  also have "\<dots> = 10 powr (real 99 * (- 12 / 99) + 10) * 0.5"
    unfolding alphas_eq by (subst nth_map) simp_all
  also have "real 99 * (- 12 / 99) + 10 = (- 2 :: real)"
    by simp
  finally show ?thesis by simp
qed

lemma alphas_hd: "hd alphas = 0.5 * 10 ^ 10"
proof -
  have "hd alphas = alphas ! 0"
    by (subst hd_conv_nth) (simp_all add: alphas_eq)
  also have "\<dots> = 0.5 * 10 ^ 10 * (10 powr (- 12 / 99)) ^ (0::nat)"
    unfolding alphas_geometric geometric_strengths_def by (subst nth_map) simp_all
  finally show ?thesis by simp
qed

text \<open>
  Claim C9. With the model kind \<^verbatim>\<open>'ridge'\<close>, \<^verbatim>\<open>train_model\<close> fits the scaler on the
  training features, searches the regularization strength with \<^verbatim>\<open>RidgeCV\<close> over a
  geometric sequence of exactly 100 candidates that starts at \<open>0.5 * 10^10\<close> and ends at
  \<open>0.5 * 10^-2\<close>, under repeated k-fold cross-validation with 5 folds, 10 repeats and the
  seed 1, scored by the negative mean absolute error, and fits the final ridge model at
  the strength the search returns, on the whole scaled training set. An exception of any
  of the three library calls is the result of the call.
\<close>

theorem train_model_ridge:
  "train_model lib X y ''ridge'' scaler_type =
     (case scaler_fit_transform lib
             (if scaler_type = ''minmax'' then MinMaxScaler else StandardScaler) X of
        Inl e \<Rightarrow> Inl e
      | Inr (scaler, X_scaled) \<Rightarrow>
          (case ridgecv_fit lib (geometric_strengths (0.5 * 10 ^ 10) (10 powr (- 12 / 99)) 100)
                  ''neg_mean_absolute_error''
                  \<lparr>n_splits = 5, n_repeats = 10, random_state = 1\<rparr> X_scaled y of
             Inl e \<Rightarrow> Inl e
           | Inr best \<Rightarrow>
               (case ridge_fit lib best X_scaled y of
                  Inl e \<Rightarrow> Inl e
                | Inr model \<Rightarrow> Inr (model, scaler))))
   \<and> length (geometric_strengths (0.5 * 10 ^ 10) (10 powr (- 12 / 99)) 100) = 100
   \<and> hd (geometric_strengths (0.5 * 10 ^ 10) (10 powr (- 12 / 99)) 100) = 0.5 * 10 ^ 10
   \<and> last (geometric_strengths (0.5 * 10 ^ 10) (10 powr (- 12 / 99)) 100) = 0.5 * 10 powr (- 2)"
proof -
  have "length (geometric_strengths (0.5 * 10 ^ 10) (10 powr (- 12 / 99)) 100) = 100"
    by (simp add: geometric_strengths_def)
  moreover note alphas_hd [unfolded alphas_geometric] alphas_last [unfolded alphas_geometric]
  moreover have "train_model lib X y ''ridge'' scaler_type =
     (case scaler_fit_transform lib
             (if scaler_type = ''minmax'' then MinMaxScaler else StandardScaler) X of
        Inl e \<Rightarrow> Inl e
      | Inr (scaler, X_scaled) \<Rightarrow>
          (case ridgecv_fit lib alphas ''neg_mean_absolute_error'' cv X_scaled y of
             Inl e \<Rightarrow> Inl e
           | Inr best \<Rightarrow>
               (case ridge_fit lib best X_scaled y of
                  Inl e \<Rightarrow> Inl e
                | Inr model \<Rightarrow> Inr (model, scaler))))"
    by (simp add: train_model_def split: sum.splits prod.splits)
  ultimately show ?thesis
    unfolding alphas_geometric cv_def by blast
qed

text \<open>
  The theorem at a training table of one column and two rows.
\<close>

theorem train_model_ridge_witness:
  "train_model demo_sklearn [(''f1'', [1, 2])] (Column [Num 40, Num 50]) ''ridge'' ''minmax'' =
     Inr (45, MinMaxScaler, [''f1''])"
proof -
  from train_model_ridge [of demo_sklearn "[(''f1'', [1, 2])]" "Column [Num 40, Num 50]"
      "''minmax''"]
  have "train_model demo_sklearn [(''f1'', [1, 2])] (Column [Num 40, Num 50]) ''ridge'' ''minmax'' =
     (case scaler_fit_transform demo_sklearn
             (if ''minmax'' = ''minmax'' then MinMaxScaler else StandardScaler) [(''f1'', [1, 2])] of
        Inl e \<Rightarrow> Inl e
      | Inr (scaler, X_scaled) \<Rightarrow>
          (case ridgecv_fit demo_sklearn (geometric_strengths (0.5 * 10 ^ 10) (10 powr (- 12 / 99)) 100)
                  ''neg_mean_absolute_error''
                  \<lparr>n_splits = 5, n_repeats = 10, random_state = 1\<rparr> X_scaled (Column [Num 40, Num 50]) of
             Inl e \<Rightarrow> Inl e
           | Inr best \<Rightarrow>
               (case ridge_fit demo_sklearn best X_scaled (Column [Num 40, Num 50]) of
                  Inl e \<Rightarrow> Inl e
                | Inr model \<Rightarrow> Inr (model, scaler))))"
    by (rule conjunct1)
  also have "\<dots> = Inr (45, MinMaxScaler, [''f1''])"
    by (simp add: demo_sklearn_def demo_check_def demo_fit_def)
  finally show ?thesis .
qed

subsection \<open>predict\_ages\<close>



subsection \<open>Removing columns\<close>

lemma astype_float64_labels: "astype_float64 lib df = Inr X \<Longrightarrow> map fst X = map fst df"
proof (induction df arbitrary: X)
  case Nil
  then show ?case by simp
next
  case (Cons col df)
  obtain name cells where col: "col = (name, cells)"
    by (cases col)
  from Cons.prems col obtain xs m where
    "astype_float64 lib df = Inr m" "X = (name, xs) # m"
    by (auto split: sum.splits)
  with Cons.IH [of m] col show ?case
    by simp
qed

lemma drop_columns_labels:
  "drop_columns labels df = Inr d \<Longrightarrow>
   set labels \<subseteq> set (map fst df) \<and> map fst d = filter (\<lambda>name. name \<notin> set labels) (map fst df)"
  by (auto simp: drop_columns_def Let_def filter_map comp_def case_prod_unfold filter_empty_conv
           split: if_splits)

lemma drop_astype_labels:
  assumes "drop_astype lib df feature = Inr X"
  shows "map fst X =
           filter (\<lambda>name. name \<notin> {''Age at Visit'', ''BD#'', ''Dx''} \<union> set feature) (map fst df)"
proof -
  from assms obtain d where
    d: "drop_columns ([''Age at Visit'', ''BD#'', ''Dx''] @ feature) df = Inr d"
    and X: "astype_float64 lib d = Inr X"
    by (auto simp: drop_astype_def split: sum.splits)
  from drop_columns_labels [OF d] astype_float64_labels [OF X] show ?thesis
    by (simp add: insert_commute)
qed

subsection \<open>evaluate\_feature\_ablation: the loop\<close>

lemma ablation_loop_step:
  "ablation_loop lib tr dis mt st ctrl (f # fs) rd rc = Inr r \<longleftrightarrow>
     (\<exists>artifact d.
        train_without lib tr mt st f = Inr artifact \<and>
        predict_without lib artifact dis f = Inr d \<and>
        (case ctrl of
           None \<Rightarrow> ablation_loop lib tr dis mt st ctrl fs (rd @ [d]) rc = Inr r
         | Some c \<Rightarrow>
             (\<exists>cc. predict_without lib artifact c f = Inr cc \<and>
                   ablation_loop lib tr dis mt st ctrl fs (rd @ [d]) (rc @ [cc]) = Inr r)))"
  by (auto simp: train_without_def predict_without_def
           split: sum.splits option.splits prod.splits)

lemma ablation_loop_results:
  "ablation_loop lib tr dis mt st ctrl fs rd rc = Inr (rd', rc') \<Longrightarrow>
   \<exists>artifacts ds cs.
     rd' = rd @ ds \<and> rc' = rc @ cs \<and>
     map (train_without lib tr mt st) fs = map Inr artifacts \<and>
     map (\<lambda>(a, f). predict_without lib a dis f) (zip artifacts fs) = map Inr ds \<and>
     (case ctrl of
        None \<Rightarrow> cs = []
      | Some c \<Rightarrow> map (\<lambda>(a, f). predict_without lib a c f) (zip artifacts fs) = map Inr cs)"
proof (induction fs arbitrary: rd rc)
  case Nil
  then show ?case by (auto split: option.splits)
next
  case (Cons f fs)
  from Cons.prems obtain artifact d where
    art: "train_without lib tr mt st f = Inr artifact"
    and d: "predict_without lib artifact dis f = Inr d"
    and rest: "case ctrl of
           None \<Rightarrow> ablation_loop lib tr dis mt st ctrl fs (rd @ [d]) rc = Inr (rd', rc')
         | Some c \<Rightarrow>
             (\<exists>cc. predict_without lib artifact c f = Inr cc \<and>
                   ablation_loop lib tr dis mt st ctrl fs (rd @ [d]) (rc @ [cc]) = Inr (rd', rc'))"
    unfolding ablation_loop_step by blast
  show ?case
  proof (cases ctrl)
    case None
    with rest have "ablation_loop lib tr dis mt st ctrl fs (rd @ [d]) rc = Inr (rd', rc')"
      by simp
    from Cons.IH [OF this] None obtain artifacts ds where
      "rd' = (rd @ [d]) @ ds" "rc' = rc"
      "map (train_without lib tr mt st) fs = map Inr artifacts"
      "map (\<lambda>(a, f). predict_without lib a dis f) (zip artifacts fs) = map Inr ds"
      by auto
    with art d None show ?thesis
      by (intro exI [of _ "artifact # artifacts"] exI [of _ "d # ds"] exI [of _ "[]"]) simp
  next
    case (Some c)
    with rest obtain cc where cc: "predict_without lib artifact c f = Inr cc"
      and loop: "ablation_loop lib tr dis mt st ctrl fs (rd @ [d]) (rc @ [cc]) = Inr (rd', rc')"
      by auto
    from Cons.IH [OF loop] Some obtain artifacts ds cs where
      "rd' = (rd @ [d]) @ ds" "rc' = (rc @ [cc]) @ cs"
      "map (train_without lib tr mt st) fs = map Inr artifacts"
      "map (\<lambda>(a, f). predict_without lib a dis f) (zip artifacts fs) = map Inr ds"
      "map (\<lambda>(a, f). predict_without lib a c f) (zip artifacts fs) = map Inr cs"
      by auto
    with art d cc Some show ?thesis
      by (intro exI [of _ "artifact # artifacts"] exI [of _ "d # ds"] exI [of _ "cc # cs"]) simp
  qed
qed

lemma ablation_loop_total:
  "\<forall>f\<in>set fs. succeeds (ablation_result lib tr mt st dis f) \<Longrightarrow>
   (\<And>c. ctrl = Some c \<Longrightarrow> \<forall>f\<in>set fs. succeeds (ablation_result lib tr mt st c f)) \<Longrightarrow>
   succeeds (ablation_loop lib tr dis mt st ctrl fs rd rc)"
proof (induction fs arbitrary: rd rc)
  case Nil
  then show ?case by simp
next
  case (Cons f fs)
  from Cons.prems(1) have "succeeds (ablation_result lib tr mt st dis f)" by simp
  then obtain artifact d where art: "train_without lib tr mt st f = Inr artifact"
    and d: "predict_without lib artifact dis f = Inr d"
    by (cases "train_without lib tr mt st f"; cases "ablation_result lib tr mt st dis f")
       (auto simp: ablation_result_def)
  have IH: "succeeds (ablation_loop lib tr dis mt st ctrl fs rd0 rc0)" for rd0 rc0
    using Cons.prems by (intro Cons.IH) auto
  show ?case
  proof (cases ctrl)
    case None
    from IH [of "rd @ [d]" rc] obtain r where
      "ablation_loop lib tr dis mt st ctrl fs (rd @ [d]) rc = Inr r"
      by (cases "ablation_loop lib tr dis mt st ctrl fs (rd @ [d]) rc") auto
    with art d None have "ablation_loop lib tr dis mt st ctrl (f # fs) rd rc = Inr r"
      unfolding ablation_loop_step by auto
    then show ?thesis by simp
  next
    case (Some c)
    with Cons.prems(2) have "succeeds (ablation_result lib tr mt st c f)" by simp
    with art obtain cc where cc: "predict_without lib artifact c f = Inr cc"
      by (cases "predict_without lib artifact c f") (auto simp: ablation_result_def)
    from IH [of "rd @ [d]" "rc @ [cc]"] obtain r where
      "ablation_loop lib tr dis mt st ctrl fs (rd @ [d]) (rc @ [cc]) = Inr r"
      by (cases "ablation_loop lib tr dis mt st ctrl fs (rd @ [d]) (rc @ [cc])") auto
    with art d cc Some have "ablation_loop lib tr dis mt st ctrl (f # fs) rd rc = Inr r"
      unfolding ablation_loop_step by auto
    then show ?thesis by simp
  qed
qed

subsection \<open>evaluate\_feature\_ablation: the result lists\<close>

lemma loop_features_names: "loop_features F = map (feature_columns F) feature_sets"
  by (simp add: loop_features_def feature_sets_def feature_columns_def)

lemma length_loop_features: "length (loop_features F) = 7"
  by (simp add: loop_features_def)

lemma evaluate_results:
  assumes "evaluate_feature_ablation lib F tr dis mt st ctrl = Inr (rd, rc)"
  shows "\<exists>artifacts.
     length artifacts = 7 \<and> length rd = 7 \<and>
     map (train_without lib tr mt st) (loop_features F) = map Inr artifacts \<and>
     map (\<lambda>(a, f). predict_without lib a dis f) (zip artifacts (loop_features F)) = map Inr rd \<and>
     (case ctrl of
        None \<Rightarrow> rc = []
      | Some c \<Rightarrow> length rc = 7 \<and>
          map (\<lambda>(a, f). predict_without lib a c f) (zip artifacts (loop_features F)) = map Inr rc)"
proof -
  from assms ablation_loop_results [of lib tr dis mt st ctrl "loop_features F" "[]" "[]" rd rc]
  obtain artifacts where
    tr: "map (train_without lib tr mt st) (loop_features F) = map Inr artifacts"
    and d: "map (\<lambda>(a, f). predict_without lib a dis f) (zip artifacts (loop_features F)) = map Inr rd"
    and c: "case ctrl of
        None \<Rightarrow> rc = []
      | Some c \<Rightarrow> map (\<lambda>(a, f). predict_without lib a c f) (zip artifacts (loop_features F)) = map Inr rc"
    by (auto simp: evaluate_feature_ablation_def)
  from tr have la: "length artifacts = 7"
    using length_loop_features [of F] by (metis length_map)
  from d la have ld: "length rd = 7"
    using length_loop_features [of F] by (metis length_map length_zip min.idem)
  have "length rc = 7" if "ctrl = Some c0" for c0
  proof -
    from c that have "map (\<lambda>(a, f). predict_without lib a c0 f) (zip artifacts (loop_features F)) = map Inr rc"
      by simp
    with la show ?thesis
      using length_loop_features [of F] by (metis length_map length_zip min.idem)
  qed
  with tr d c la ld show ?thesis
    by (intro exI [of _ artifacts]) (auto split: option.splits)
qed

lemma evaluate_nth:
  assumes "evaluate_feature_ablation lib F tr dis mt st ctrl = Inr (rd, rc)" and "i < 7"
  shows "\<exists>artifact.
     train_without lib tr mt st (loop_features F ! i) = Inr artifact \<and>
     predict_without lib artifact dis (loop_features F ! i) = Inr (rd ! i) \<and>
     (\<forall>c. ctrl = Some c \<longrightarrow> predict_without lib artifact c (loop_features F ! i) = Inr (rc ! i))"
proof -
  from evaluate_results [OF assms(1)] obtain artifacts where
    la: "length artifacts = 7" and ld: "length rd = 7"
    and tr: "map (train_without lib tr mt st) (loop_features F) = map Inr artifacts"
    and d: "map (\<lambda>(a, f). predict_without lib a dis f) (zip artifacts (loop_features F)) = map Inr rd"
    and c: "case ctrl of
        None \<Rightarrow> rc = []
      | Some c \<Rightarrow> length rc = 7 \<and>
          map (\<lambda>(a, f). predict_without lib a c f) (zip artifacts (loop_features F)) = map Inr rc"
    by blast
  note lf = length_loop_features [of F]
  from tr have "map (train_without lib tr mt st) (loop_features F) ! i = map Inr artifacts ! i"
    by simp
  with assms(2) la lf have 1: "train_without lib tr mt st (loop_features F ! i) = Inr (artifacts ! i)"
    by simp
  from d have "map (\<lambda>(a, f). predict_without lib a dis f) (zip artifacts (loop_features F)) ! i
      = map Inr rd ! i"
    by simp
  with assms(2) la ld lf
  have 2: "predict_without lib (artifacts ! i) dis (loop_features F ! i) = Inr (rd ! i)"
    by simp
  have 3: "predict_without lib (artifacts ! i) c0 (loop_features F ! i) = Inr (rc ! i)"
    if "ctrl = Some c0" for c0
  proof -
    from c that have lc: "length rc = 7"
      and m: "map (\<lambda>(a, f). predict_without lib a c0 f) (zip artifacts (loop_features F)) = map Inr rc"
      by simp_all
    from m have "map (\<lambda>(a, f). predict_without lib a c0 f) (zip artifacts (loop_features F)) ! i
      = map Inr rc ! i"
      by simp
    with assms(2) la lc lf show ?thesis
      by simp
  qed
  from 1 2 3 show ?thesis
    by blast
qed

lemma evaluate_nth_result:
  assumes "evaluate_feature_ablation lib F tr dis mt st ctrl = Inr (rd, rc)" and "i < 7"
  shows "ablation_result lib tr mt st dis (loop_features F ! i) = Inr (rd ! i)"
    and "ctrl = Some c \<Longrightarrow> ablation_result lib tr mt st c (loop_features F ! i) = Inr (rc ! i)"
  using evaluate_nth [OF assms] by (auto simp: ablation_result_def)

lemma demo_run_disease_only:
  "evaluate_feature_ablation demo_sklearn demo_features demo_train demo_disease
     ''ridge'' ''minmax'' None =
   Inr ([[Finite 45], [Finite 45], [Finite 45], [Finite 45], [Finite 45], [Finite 45],
         [Finite 45]], [])"
  by (simp add: evaluate_feature_ablation_def loop_features_def demo_features_def
      demo_train_def demo_disease_def drop_astype_def drop_columns_def getitem_def
      train_model_def predict_ages_def demo_sklearn_def demo_check_def demo_fit_def
      demo_predict_def demo_round_def rint_def)

lemma demo_run_with_control:
  "evaluate_feature_ablation demo_sklearn demo_features demo_train demo_disease
     ''svm'' ''standard'' (Some demo_control) =
   Inr ([[Finite 45], [Finite 45], [Finite 45], [Finite 45], [Finite 45], [Finite 45],
         [Finite 45]],
        [[Finite 45, Finite 45, Finite 45], [Finite 45, Finite 45, Finite 45],
         [Finite 45, Finite 45, Finite 45], [Finite 45, Finite 45, Finite 45],
         [Finite 45, Finite 45, Finite 45], [Finite 45, Finite 45, Finite 45],
         [Finite 45, Finite 45, Finite 45]])"
  by (simp add: evaluate_feature_ablation_def loop_features_def demo_features_def
      demo_train_def demo_disease_def demo_control_def drop_astype_def drop_columns_def
      getitem_def train_model_def predict_ages_def demo_sklearn_def demo_check_def
      demo_fit_def demo_predict_def demo_round_def rint_def)

lemma evaluate_all_succeed:
  assumes "evaluate_feature_ablation lib F tr dis mt st ctrl = Inr (rd, rc)"
  shows "\<forall>f\<in>set (loop_features F).
           succeeds (ablation_result lib tr mt st dis f) \<and>
           (\<forall>c. ctrl = Some c \<longrightarrow> succeeds (ablation_result lib tr mt st c f))"
proof
  fix f
  assume "f \<in> set (loop_features F)"
  then obtain i where i: "i < 7" and f: "f = loop_features F ! i"
    by (auto simp: in_set_conv_nth length_loop_features)
  from evaluate_nth_result [OF assms i] f
  show "succeeds (ablation_result lib tr mt st dis f) \<and>
           (\<forall>c. ctrl = Some c \<longrightarrow> succeeds (ablation_result lib tr mt st c f))"
    by simp
qed

subsection \<open>evaluate\_feature\_ablation: the claims\<close>

text \<open>
  Claim C1. When \<^verbatim>\<open>evaluate_feature_ablation\<close> returns, its disease result list is, entry by
  entry and in the fixed order FLAIR hyperintensities, DTI, CBF, resting-state activation,
  ventricular volume, surface area, cortical thickness, the prediction result of that
  group: the three non-feature columns and the group's columns are removed from the
  training cohort and from the disease cohort, a model is trained on the remaining
  training features against the column \<^verbatim>\<open>'Age at Visit'\<close>, and it predicts on the remaining
  disease features. With or without a control cohort, the call returns whenever each of
  the seven groups can be dropped, trained and predicted for every cohort supplied. The
  features built from a cohort are its columns, in their order, without the three
  non-feature columns and the columns of the group.
\<close>

theorem evaluate_iterates_in_order:
  "(evaluate_feature_ablation lib F train_cohort disease_cohort model_kind scaler_kind
        control_cohort = Inr (disease_results, control_results) \<longrightarrow>
      map Inr disease_results =
        map (ablation_result lib train_cohort model_kind scaler_kind disease_cohort)
          [hyperintensities_flair F, dti F, cbf F, resting_state_activation F,
           ventricular_volume F, surface_area F, cortical_thickness F])
   \<and> ((\<forall>feature \<in> set [hyperintensities_flair F, dti F, cbf F, resting_state_activation F,
                           ventricular_volume F, surface_area F, cortical_thickness F].
          succeeds (ablation_result lib train_cohort model_kind scaler_kind disease_cohort
                      feature) \<and>
          (\<forall>control. control_cohort = Some control \<longrightarrow>
             succeeds (ablation_result lib train_cohort model_kind scaler_kind control
                         feature))) \<longrightarrow>
        succeeds (evaluate_feature_ablation lib F train_cohort disease_cohort model_kind
                    scaler_kind control_cohort))
   \<and> (drop_astype lib cohort feature = Inr features \<longrightarrow>
        map fst features =
          filter (\<lambda>name. name \<notin> {''Age at Visit'', ''BD#'', ''Dx''} \<union> set feature)
            (map fst cohort))"
proof (intro conjI impI)
  assume "drop_astype lib cohort feature = Inr features"
  then show "map fst features =
          filter (\<lambda>name. name \<notin> {''Age at Visit'', ''BD#'', ''Dx''} \<union> set feature)
            (map fst cohort)"
    by (rule drop_astype_labels)
next
  assume ev: "evaluate_feature_ablation lib F train_cohort disease_cohort model_kind scaler_kind
        control_cohort = Inr (disease_results, control_results)"
  from evaluate_results [OF ev] have len: "length disease_results = 7"
    by blast
  have "map Inr disease_results =
      map (ablation_result lib train_cohort model_kind scaler_kind disease_cohort)
        (loop_features F)"
  proof (rule nth_equalityI)
    show "length (map Inr disease_results) =
        length (map (ablation_result lib train_cohort model_kind scaler_kind disease_cohort)
          (loop_features F))"
      using len by (simp add: length_loop_features)
  next
    fix i
    assume "i < length (map Inr disease_results :: (error + float64 list) list)"
    with len have i: "i < 7" by simp
    from evaluate_nth_result(1) [OF ev i] i len
    show "map Inr disease_results ! i =
        map (ablation_result lib train_cohort model_kind scaler_kind disease_cohort)
          (loop_features F) ! i"
      by (simp add: length_loop_features)
  qed
  then show "map Inr disease_results =
        map (ablation_result lib train_cohort model_kind scaler_kind disease_cohort)
          [hyperintensities_flair F, dti F, cbf F, resting_state_activation F,
           ventricular_volume F, surface_area F, cortical_thickness F]"
    by (simp only: loop_features_def)
next
  assume "\<forall>feature \<in> set [hyperintensities_flair F, dti F, cbf F, resting_state_activation F,
                           ventricular_volume F, surface_area F, cortical_thickness F].
          succeeds (ablation_result lib train_cohort model_kind scaler_kind disease_cohort
                      feature) \<and>
          (\<forall>control. control_cohort = Some control \<longrightarrow>
             succeeds (ablation_result lib train_cohort model_kind scaler_kind control
                         feature))"
  then have all: "\<forall>feature \<in> set (loop_features F).
          succeeds (ablation_result lib train_cohort model_kind scaler_kind disease_cohort
                      feature) \<and>
          (\<forall>control. control_cohort = Some control \<longrightarrow>
             succeeds (ablation_result lib train_cohort model_kind scaler_kind control
                         feature))"
    by (simp only: loop_features_def)
  show "succeeds (evaluate_feature_ablation lib F train_cohort disease_cohort model_kind
                    scaler_kind control_cohort)"
    unfolding evaluate_feature_ablation_def
  proof (rule ablation_loop_total)
    from all show "\<forall>f\<in>set (loop_features F).
        succeeds (ablation_result lib train_cohort model_kind scaler_kind disease_cohort f)"
      by blast
  next
    fix c
    assume "control_cohort = Some c"
    with all show "\<forall>f\<in>set (loop_features F).
        succeeds (ablation_result lib train_cohort model_kind scaler_kind c f)"
      by blast
  qed
qed

text \<open>
  The theorem at the small instance with a control cohort: the entries of the first and
  of the last group, and the call returns.
\<close>

theorem evaluate_iterates_in_order_witness:
  "ablation_result demo_sklearn demo_train ''svm'' ''standard'' demo_disease
     (hyperintensities_flair demo_features) = Inr [Finite 45]
   \<and> ablation_result demo_sklearn demo_train ''svm'' ''standard'' demo_disease
     (cortical_thickness demo_features) = Inr [Finite 45]
   \<and> succeeds (evaluate_feature_ablation demo_sklearn demo_features demo_train demo_disease
        ''svm'' ''standard'' (Some demo_control))"
proof -
  note inst = evaluate_iterates_in_order [of demo_sklearn demo_features demo_train demo_disease
      "''svm''" "''standard''" "Some demo_control"
      "[[Finite 45], [Finite 45], [Finite 45], [Finite 45], [Finite 45], [Finite 45],
         [Finite 45]]"
      "[[Finite 45, Finite 45, Finite 45], [Finite 45, Finite 45, Finite 45],
         [Finite 45, Finite 45, Finite 45], [Finite 45, Finite 45, Finite 45],
         [Finite 45, Finite 45, Finite 45], [Finite 45, Finite 45, Finite 45],
         [Finite 45, Finite 45, Finite 45]]"]
  from inst demo_run_with_control
  have "map Inr [[Finite 45], [Finite 45], [Finite 45], [Finite 45], [Finite 45], [Finite 45],
         [Finite 45]] =
        map (ablation_result demo_sklearn demo_train ''svm'' ''standard'' demo_disease)
          [hyperintensities_flair demo_features, dti demo_features, cbf demo_features,
           resting_state_activation demo_features, ventricular_volume demo_features,
           surface_area demo_features, cortical_thickness demo_features]"
    by blast
  then have m: "map (ablation_result demo_sklearn demo_train ''svm'' ''standard'' demo_disease)
          [hyperintensities_flair demo_features, dti demo_features, cbf demo_features,
           resting_state_activation demo_features, ventricular_volume demo_features,
           surface_area demo_features, cortical_thickness demo_features] =
        map Inr [[Finite 45], [Finite 45], [Finite 45], [Finite 45], [Finite 45], [Finite 45],
         [Finite 45]]"
    by (rule sym)
  have all: "\<forall>feature \<in> set [hyperintensities_flair demo_features, dti demo_features,
        cbf demo_features, resting_state_activation demo_features,
        ventricular_volume demo_features, surface_area demo_features,
        cortical_thickness demo_features].
      succeeds (ablation_result demo_sklearn demo_train ''svm'' ''standard'' demo_disease feature) \<and>
      (\<forall>control. Some demo_control = Some control \<longrightarrow>
         succeeds (ablation_result demo_sklearn demo_train ''svm'' ''standard'' control feature))"
    using evaluate_all_succeed [OF demo_run_with_control] by (simp only: loop_features_def)
  from inst all have "succeeds (evaluate_feature_ablation demo_sklearn demo_features demo_train
      demo_disease ''svm'' ''standard'' (Some demo_control))"
    by blast
  with m show ?thesis
    by simp
qed

text \<open>
  Claim C2, as the code has it. The disease result list has exactly seven entries, in the
  order of the list of group names, whether or not a control cohort is supplied. The
  control result list has seven entries in the same order when a control cohort is
  supplied, and is empty when it is omitted.
\<close>

theorem evaluate_result_lengths:
  assumes "evaluate_feature_ablation lib F train_cohort disease_cohort model_kind scaler_kind
             control_cohort = Inr (disease_results, control_results)"
  shows "length feature_sets = 7 \<and> length disease_results = 7
     \<and> (\<forall>i<7. ablation_result lib train_cohort model_kind scaler_kind disease_cohort
                  (feature_columns F (feature_sets ! i)) = Inr (disease_results ! i))
     \<and> (case control_cohort of
          None \<Rightarrow> control_results = []
        | Some control \<Rightarrow>
            length control_results = 7 \<and>
            (\<forall>i<7. ablation_result lib train_cohort model_kind scaler_kind control
                      (feature_columns F (feature_sets ! i)) = Inr (control_results ! i)))"
proof -
  have seven: "length feature_sets = 7"
    by (simp add: feature_sets_def)
  have names: "feature_columns F (feature_sets ! i) = loop_features F ! i" if "i < 7" for i
    using that seven by (simp add: loop_features_names)
  from evaluate_results [OF assms] have len: "length disease_results = 7"
    and ctrl: "case control_cohort of None \<Rightarrow> control_results = []
        | Some control \<Rightarrow> length control_results = 7"
    by (auto split: option.splits)
  note seven
  moreover have "\<forall>i<7. ablation_result lib train_cohort model_kind scaler_kind disease_cohort
                  (feature_columns F (feature_sets ! i)) = Inr (disease_results ! i)"
    using evaluate_nth_result(1) [OF assms] by (simp add: names)
  moreover have "\<forall>i<7. ablation_result lib train_cohort model_kind scaler_kind control
                      (feature_columns F (feature_sets ! i)) = Inr (control_results ! i)"
    if "control_cohort = Some control" for control
    using evaluate_nth_result(2) [OF assms _ that] by (simp add: names)
  ultimately show ?thesis
    using len ctrl by (auto split: option.splits)
qed

text \<open>
  The theorem at the small instance with a control cohort.
\<close>

theorem evaluate_result_lengths_witness:
  "length [[Finite 45], [Finite 45], [Finite 45], [Finite 45], [Finite 45], [Finite 45],
         [Finite 45]] = 7
   \<and> length [[Finite 45, Finite 45, Finite 45], [Finite 45, Finite 45, Finite 45],
         [Finite 45, Finite 45, Finite 45], [Finite 45, Finite 45, Finite 45],
         [Finite 45, Finite 45, Finite 45], [Finite 45, Finite 45, Finite 45],
         [Finite 45, Finite 45, Finite 45]] = 7
   \<and> ablation_result demo_sklearn demo_train ''svm'' ''standard'' demo_control
        (feature_columns demo_features (feature_sets ! 6)) = Inr [Finite 45, Finite 45, Finite 45]"
proof -
  from evaluate_result_lengths [OF demo_run_with_control]
  have "\<forall>i<7. ablation_result demo_sklearn demo_train ''svm'' ''standard'' demo_control
                      (feature_columns demo_features (feature_sets ! i)) =
               Inr ([[Finite 45, Finite 45, Finite 45], [Finite 45, Finite 45, Finite 45],
         [Finite 45, Finite 45, Finite 45], [Finite 45, Finite 45, Finite 45],
         [Finite 45, Finite 45, Finite 45], [Finite 45, Finite 45, Finite 45],
         [Finite 45, Finite 45, Finite 45]] ! i)"
    by simp
  from spec [OF this, of 6] have "ablation_result demo_sklearn demo_train ''svm'' ''standard'' demo_control
                      (feature_columns demo_features (feature_sets ! 6)) =
               Inr ([[Finite 45, Finite 45, Finite 45], [Finite 45, Finite 45, Finite 45],
         [Finite 45, Finite 45, Finite 45], [Finite 45, Finite 45, Finite 45],
         [Finite 45, Finite 45, Finite 45], [Finite 45, Finite 45, Finite 45],
         [Finite 45, Finite 45, Finite 45]] ! 6)"
    by simp
  then show ?thesis
    by simp
qed

text \<open>
  Claim C2 as stated fails when the control cohort is omitted: the second result list has
  no entry, not seven.
\<close>

theorem evaluate_both_lists_seven_counterexample:
  "evaluate_feature_ablation demo_sklearn demo_features demo_train demo_disease
     ''ridge'' ''minmax'' None =
   Inr ([[Finite 45], [Finite 45], [Finite 45], [Finite 45], [Finite 45], [Finite 45],
         [Finite 45]], [])
   \<and> length ([] :: float64 list list) \<noteq> 7"
  using demo_run_disease_only by simp

text \<open>
  Claim C3. When the control cohort is omitted and the call returns, the second result is
  the empty list, of length 0.
\<close>

theorem evaluate_control_omitted:
  assumes "evaluate_feature_ablation lib F train_cohort disease_cohort model_kind scaler_kind
             None = Inr (disease_results, control_results)"
  shows "control_results = [] \<and> length control_results = 0"
  using evaluate_results [OF assms] by auto

text \<open>
  The theorem at the small instance without a control cohort.
\<close>

theorem evaluate_control_omitted_witness:
  "evaluate_feature_ablation demo_sklearn demo_features demo_train demo_disease
     ''ridge'' ''minmax'' None =
   Inr ([[Finite 45], [Finite 45], [Finite 45], [Finite 45], [Finite 45], [Finite 45],
         [Finite 45]], [])
   \<and> length (snd ([[Finite 45], [Finite 45], [Finite 45], [Finite 45], [Finite 45], [Finite 45],
         [Finite 45]], [] :: float64 list list)) = 0"
  using evaluate_control_omitted [OF demo_run_disease_only] demo_run_disease_only by simp

subsection \<open>evaluate\_feature\_ablation: the objects used\<close>












end
